theory Spec2Isabelle
  imports Main "HOL-Library.Word"
begin

section \<open>Text values\<close>

text \<open>
  A JavaScript string is a sequence of UTF-16 code units. \<open>lit\<close> turns an ASCII
  literal of the source into such a sequence.
\<close>

type_synonym jsstring = "16 word list"

definition lit :: "string \<Rightarrow> jsstring" where
  "lit s = map (\<lambda>c. of_nat (of_char c)) s"

text \<open>
  \<open>String.prototype.trim\<close> removes the ECMAScript WhiteSpace and LineTerminator code
  points from both ends: TAB, VT, FF, SP, NBSP, ZWNBSP, the Unicode category Zs, and LF, CR,
  LS, PS.
\<close>

definition isWhiteSpace :: "16 word \<Rightarrow> bool" where
  "isWhiteSpace c \<longleftrightarrow>
     c \<in> {0x0009, 0x000A, 0x000B, 0x000C, 0x000D, 0x0020, 0x00A0, 0x1680,
          0x2000, 0x2001, 0x2002, 0x2003, 0x2004, 0x2005, 0x2006, 0x2007,
          0x2008, 0x2009, 0x200A, 0x2028, 0x2029, 0x202F, 0x205F, 0x3000, 0xFEFF}"

definition trim :: "jsstring \<Rightarrow> jsstring" where
  "trim s = rev (dropWhile isWhiteSpace (rev (dropWhile isWhiteSpace s)))"

definition startsWith :: "jsstring \<Rightarrow> jsstring \<Rightarrow> bool" where
  "startsWith s p \<longleftrightarrow> take (length p) s = p"

text \<open>
  A JSON property that should hold a string: \<open>None\<close> is \<open>undefined\<close> or \<open>null\<close>.
  \<open>falsy v\<close> is the JavaScript test \<open>!v\<close> on such a value: absent or the empty string.
\<close>

definition falsy :: "jsstring option \<Rightarrow> bool" where
  "falsy v \<longleftrightarrow> (case v of None \<Rightarrow> True | Some s \<Rightarrow> s = [])"

section \<open>The complaints table\<close>

text \<open>
  One row of table \<open>complaints\<close> (the schema and its two later migrations). Column
  \<open>id\<close> is \<open>cid\<close> here. Timestamps are integers (microseconds since the epoch).
\<close>

record complaint =
  cid :: jsstring
  complaint_text :: jsstring
  category :: jsstring
  sentiment :: jsstring
  priority :: jsstring
  ai_response :: jsstring
  ai_confidence_score :: int
  ai_explanation :: jsstring
  status :: jsstring
  feedback_helpful :: "bool option"
  user_id :: "jsstring option"
  user_email :: "jsstring option"
  created_at :: int
  updated_at :: int

text \<open>
  The object handed to \<open>.insert(...)\<close>. \<open>None\<close> is a property that is absent,
  \<open>undefined\<close> or \<open>null\<close>: the column then takes its default, and a NOT NULL column
  without one rejects the row.
\<close>

record insert_data =
  ins_complaint_text :: "jsstring option"
  ins_category :: "jsstring option"
  ins_sentiment :: "jsstring option"
  ins_priority :: "jsstring option"
  ins_ai_response :: "jsstring option"
  ins_ai_confidence_score :: "int option"
  ins_ai_explanation :: "jsstring option"
  ins_status :: "jsstring option"
  ins_user_id :: "jsstring option"
  ins_user_email :: "jsstring option"

section \<open>The environment of a request\<close>

text \<open>
  The reply of the prediction service, as \<open>response.json()\<close> delivers it. The service
  is documented to send strings for the four labels, an optional integer
  \<open>confidence_score\<close> and an optional string \<open>explanation\<close>.
\<close>

record predictions =
  pred_category :: "jsstring option"
  pred_sentiment :: "jsstring option"
  pred_priority :: "jsstring option"
  pred_ai_response :: "jsstring option"
  pred_confidence_score :: "int option"
  pred_explanation :: "jsstring option"

text \<open>
  What \<open>fetch\<close> does: it rejects (network error, or the 10 second
  \<open>AbortSignal.timeout\<close> fires), or it delivers a response with its \<open>ok\<close> flag and its
  body; body \<open>None\<close> is a body that is not a JSON object, where \<open>response.json()\<close>
  or the property access throws.
\<close>

datatype fetch_outcome = Fetch_rejected | Fetch_response bool "predictions option"

record auth_user =
  au_id :: jsstring
  au_email :: "jsstring option"

text \<open>
  Everything a handler reads from outside: the environment variable \<open>ML_SERVICE_URL\<close>,
  the prediction service (by URL and request text), \<open>supabase.auth.getUser\<close> (\<open>None\<close>:
  an auth error or no user), the store's verdict on the statement of this request
  (\<open>Some msg\<close>: the store is unreachable or rejects the statement with that message),
  the value \<open>gen_random_uuid()\<close> yields, the store's \<open>now()\<close> and the handler's
  \<open>new Date()\<close>.
\<close>

record env =
  ML_SERVICE_URL :: "jsstring option"
  fetch_predict :: "jsstring \<Rightarrow> jsstring \<Rightarrow> fetch_outcome"
  auth_getUser :: "jsstring \<Rightarrow> auth_user option"
  db_fault :: "jsstring option"
  gen_random_uuid :: jsstring
  db_now :: int
  js_now :: int

section \<open>Requests and responses\<close>

datatype http_method = GET | POST | PUT | OPTIONS | OTHER

text \<open>
  \<open>req_json\<close> is what \<open>await req.json()\<close> and the destructuring of its result
  deliver: \<open>Inr b\<close> the properties read from the body, \<open>Inl msg\<close> an error thrown with
  message \<open>msg\<close> (the body is not JSON, or not an object). A property that should hold a
  string is taken to be a string when it is there.
\<close>

record 'b request =
  req_method :: http_method
  req_authorization :: "jsstring option"
  req_json :: "jsstring + 'b"

record post_body =
  post_complaint_text :: "jsstring option"

datatype body =
    No_body
  | Error_body jsstring
  | Complaint_body complaint
  | Complaints_body "complaint list"

record response =
  resp_status :: nat
  resp_body :: body

definition json_response :: "nat \<Rightarrow> body \<Rightarrow> response" where
  "json_response code b = \<lparr>resp_status = code, resp_body = b\<rparr>"

text \<open>The \<open>catch\<close> block of both handlers: \<open>error.message || "Internal server error"\<close>.\<close>

definition server_error :: "jsstring \<Rightarrow> response" where
  "server_error msg =
     json_response 500 (Error_body (if msg = [] then lit ''Internal server error'' else msg))"

section \<open>Store operations\<close>

text \<open>
  \<open>.insert(d).select().single()\<close> with the service-role key: defaults are filled in
  (\<open>ai_confidence_score\<close> 0, \<open>ai_explanation\<close> empty, \<open>status\<close> Pending,
  \<open>feedback_helpful\<close> null, both timestamps \<open>now()\<close>), and a null in one of the five
  NOT NULL text columns rejects the row. The messages of the store's own errors are
  abbreviated here.
\<close>

definition db_insert ::
  "env \<Rightarrow> insert_data \<Rightarrow> complaint list \<Rightarrow> (jsstring + complaint) \<times> complaint list" where
  "db_insert e d db =
     (case db_fault e of
        Some msg \<Rightarrow> (Inl msg, db)
      | None \<Rightarrow>
         (case (ins_complaint_text d, ins_category d, ins_sentiment d, ins_priority d,
                ins_ai_response d) of
            (Some t, Some c, Some s, Some p, Some a) \<Rightarrow>
              (let row = \<lparr>cid = gen_random_uuid e,
                          complaint_text = t, category = c, sentiment = s, priority = p,
                          ai_response = a,
                          ai_confidence_score =
                            (case ins_ai_confidence_score d of None \<Rightarrow> 0 | Some n \<Rightarrow> n),
                          ai_explanation =
                            (case ins_ai_explanation d of None \<Rightarrow> [] | Some x \<Rightarrow> x),
                          status =
                            (case ins_status d of None \<Rightarrow> lit ''Pending'' | Some x \<Rightarrow> x),
                          feedback_helpful = None,
                          user_id = ins_user_id d,
                          user_email = ins_user_email d,
                          created_at = db_now e,
                          updated_at = db_now e\<rparr>
               in (Inr row, db @ [row]))
          | _ \<Rightarrow> (Inl (lit ''null value violates not-null constraint''), db)))"

section \<open>process-complaint\<close>

text \<open>
  \<open>getMLPredictions\<close>, the same in both revisions of the handler: \<open>None\<close> (the
  source's \<open>null\<close>) when the URL is not configured, \<open>fetch\<close> rejects, the status is not
  ok, or one of the four labels is falsy.
\<close>

definition getMLPredictions :: "env \<Rightarrow> jsstring \<Rightarrow> predictions option" where
  "getMLPredictions e complaintText =
     (if falsy (ML_SERVICE_URL e) then None
      else case ML_SERVICE_URL e of
        None \<Rightarrow> None
      | Some mlServiceUrl \<Rightarrow>
         (case fetch_predict e (mlServiceUrl @ lit ''/predict'') complaintText of
            Fetch_rejected \<Rightarrow> None
          | Fetch_response ok reply \<Rightarrow>
             (if \<not> ok then None
              else case reply of
                None \<Rightarrow> None
              | Some p \<Rightarrow>
                 (if falsy (pred_category p) \<or> falsy (pred_sentiment p) \<or>
                     falsy (pred_priority p) \<or> falsy (pred_ai_response p)
                  then None else Some p))))"

definition fallback_ai_response :: jsstring where
  "fallback_ai_response = lit (''Thank you for contacting Indian Postal Department. '' @
     ''Your complaint has been received and will be reviewed by our support team. '' @
     ''We will get back to you within 48 hours. For urgent matters, please call our helpline.'')"

text \<open>\<open>getFallbackValues\<close> of \<open>supabase/functions/process-complaint/index.ts\<close>.\<close>

definition getFallbackValues_v1 :: predictions where
  "getFallbackValues_v1 =
     \<lparr>pred_category = Some (lit ''Other''),
      pred_sentiment = Some (lit ''Neutral''),
      pred_priority = Some (lit ''Low''),
      pred_ai_response = Some fallback_ai_response,
      pred_confidence_score = None,
      pred_explanation = None\<rparr>"

text \<open>\<open>getFallbackValues\<close> of the user-tracking revision (\<open>unnamed/part_002\<close>).\<close>

definition getFallbackValues_v2 :: predictions where
  "getFallbackValues_v2 =
     \<lparr>pred_category = Some (lit ''Other''),
      pred_sentiment = Some (lit ''Neutral''),
      pred_priority = Some (lit ''Low''),
      pred_ai_response = Some fallback_ai_response,
      pred_confidence_score = Some 50,
      pred_explanation = Some (lit ''Using fallback values due to ML service unavailability.'')\<rparr>"

text \<open>
  The handler of \<open>supabase/functions/process-complaint/index.ts\<close>. It reads no
  \<open>Authorization\<close> header and inserts neither a confidence score, an explanation nor a
  user. The store is the list of rows; the handler returns the response and the store.
\<close>

definition process_complaint_v1 ::
  "env \<Rightarrow> post_body request \<Rightarrow> complaint list \<Rightarrow> response \<times> complaint list" where
  "process_complaint_v1 e req db =
     (if req_method req = OPTIONS then (\<lparr>resp_status = 200, resp_body = No_body\<rparr>, db)
      else case req_json req of
        Inl msg \<Rightarrow> (server_error msg, db)
      | Inr b \<Rightarrow>
         (case post_complaint_text b of
            None \<Rightarrow> (json_response 400 (Error_body (lit ''Complaint text is required'')), db)
          | Some text \<Rightarrow>
             (if text = [] \<or> length (trim text) = 0
              then (json_response 400 (Error_body (lit ''Complaint text is required'')), db)
              else
                (let mlPredictions =
                       (case getMLPredictions e text of
                          None \<Rightarrow> getFallbackValues_v1
                        | Some p \<Rightarrow> p)
                 in case db_insert e
                      \<lparr>ins_complaint_text = Some text,
                       ins_category = pred_category mlPredictions,
                       ins_sentiment = pred_sentiment mlPredictions,
                       ins_priority = pred_priority mlPredictions,
                       ins_ai_response = pred_ai_response mlPredictions,
                       ins_ai_confidence_score = None,
                       ins_ai_explanation = None,
                       ins_status = Some (lit ''Pending''),
                       ins_user_id = None,
                       ins_user_email = None\<rparr> db of
                      (Inl msg, db') \<Rightarrow> (server_error msg, db')
                    | (Inr row, db') \<Rightarrow> (json_response 200 (Complaint_body row), db')))))"

text \<open>
  The user-tracking revision (\<open>unnamed/part_002\<close>). A header \<open>Bearer t\<close> is resolved
  with \<open>auth.getUser\<close>; \<open>authHeader.replace("Bearer ", "")\<close> removes the first
  occurrence, which is the prefix just tested, so the token is the header without its
  first seven code units. \<open>confidence_score || 0\<close> and \<open>explanation || ''\<close> replace
  a falsy value. \<open>sendEmailNotification\<close> runs detached after the insert, catches every
  error of its own and touches neither the response nor the table: it is not modelled.
\<close>

definition resolve_user :: "env \<Rightarrow> jsstring option \<Rightarrow> jsstring option \<times> jsstring option" where
  "resolve_user e authHeader =
     (case authHeader of
        None \<Rightarrow> (None, None)
      | Some h \<Rightarrow>
         (if h \<noteq> [] \<and> startsWith h (lit ''Bearer '')
          then (case auth_getUser e (drop 7 h) of
                  None \<Rightarrow> (None, None)
                | Some user \<Rightarrow> (Some (au_id user), au_email user))
          else (None, None)))"

definition process_complaint_v2 ::
  "env \<Rightarrow> post_body request \<Rightarrow> complaint list \<Rightarrow> response \<times> complaint list" where
  "process_complaint_v2 e req db =
     (if req_method req = OPTIONS then (\<lparr>resp_status = 200, resp_body = No_body\<rparr>, db)
      else case req_json req of
        Inl msg \<Rightarrow> (server_error msg, db)
      | Inr b \<Rightarrow>
         (case post_complaint_text b of
            None \<Rightarrow> (json_response 400 (Error_body (lit ''Complaint text is required'')), db)
          | Some text \<Rightarrow>
             (if text = [] \<or> length (trim text) = 0
              then (json_response 400 (Error_body (lit ''Complaint text is required'')), db)
              else
                (let (userId, userEmail) = resolve_user e (req_authorization req);
                     mlPredictions =
                       (case getMLPredictions e text of
                          None \<Rightarrow> getFallbackValues_v2
                        | Some p \<Rightarrow> p)
                 in case db_insert e
                      \<lparr>ins_complaint_text = Some text,
                       ins_category = pred_category mlPredictions,
                       ins_sentiment = pred_sentiment mlPredictions,
                       ins_priority = pred_priority mlPredictions,
                       ins_ai_response = pred_ai_response mlPredictions,
                       ins_ai_confidence_score =
                         Some (case pred_confidence_score mlPredictions of
                                 None \<Rightarrow> 0 | Some n \<Rightarrow> n),
                       ins_ai_explanation =
                         Some (case pred_explanation mlPredictions of
                                 None \<Rightarrow> [] | Some x \<Rightarrow> x),
                       ins_status = Some (lit ''Pending''),
                       ins_user_id = userId,
                       ins_user_email = userEmail\<rparr> db of
                      (Inl msg, db') \<Rightarrow> (server_error msg, db')
                    | (Inr row, db') \<Rightarrow> (json_response 200 (Complaint_body row), db')))))"

section \<open>manage-complaints\<close>

text \<open>
  The JSON property \<open>feedback_helpful\<close> of a PUT body: not there (\<open>undefined\<close>),
  \<open>null\<close>, or a boolean.
\<close>

datatype feedback_arg = Absent | Null_value | Bool_value bool

record put_body =
  put_id :: "jsstring option"
  put_status :: "jsstring option"
  put_feedback_helpful :: feedback_arg

text \<open>
  The object \<open>updateData\<close>: \<open>updated_at\<close> is always there; \<open>None\<close> is a property
  that was not set, so that the column keeps its value.
\<close>

record update_data =
  upd_updated_at :: int
  upd_status :: "jsstring option"
  upd_feedback_helpful :: "bool option option"

definition apply_update :: "update_data \<Rightarrow> complaint \<Rightarrow> complaint" where
  "apply_update u r =
     r\<lparr>updated_at := upd_updated_at u,
       status := (case upd_status u of None \<Rightarrow> status r | Some s \<Rightarrow> s),
       feedback_helpful :=
         (case upd_feedback_helpful u of None \<Rightarrow> feedback_helpful r | Some v \<Rightarrow> v)\<rparr>"

text \<open>\<open>.order("created_at", { ascending: false })\<close>; rows with equal keys stay in store order.\<close>

definition order_created_at_desc :: "complaint list \<Rightarrow> complaint list" where
  "order_created_at_desc db = sort_key (\<lambda>r. - created_at r) db"

text \<open>\<open>.select("*").order(...)\<close> with the service-role key, which bypasses row-level security.\<close>

definition db_select_all :: "env \<Rightarrow> complaint list \<Rightarrow> jsstring + complaint list" where
  "db_select_all e db =
     (case db_fault e of
        Some msg \<Rightarrow> Inl msg
      | None \<Rightarrow> Inr (order_created_at_desc db))"

text \<open>
  \<open>.update(u).eq("id", i).select().single()\<close> with the service-role key. \<open>single()\<close>
  asks for exactly one row: with none or several the statement is an error and nothing is
  written.
\<close>

definition db_update ::
  "env \<Rightarrow> update_data \<Rightarrow> jsstring \<Rightarrow> complaint list \<Rightarrow> (jsstring + complaint) \<times> complaint list" where
  "db_update e u i db =
     (case db_fault e of
        Some msg \<Rightarrow> (Inl msg, db)
      | None \<Rightarrow>
         (case filter (\<lambda>r. cid r = i) db of
            [r] \<Rightarrow> (Inr (apply_update u r),
                    map (\<lambda>x. if cid x = i then apply_update u x else x) db)
          | _ \<Rightarrow> (Inl (lit ''JSON object requested, multiple (or no) rows returned''), db)))"

text \<open>
  The object \<open>updateData\<close> the PUT branch builds from the body:
  \<open>{ updated_at: new Date().toISOString() }\<close>, then \<open>if (status)\<close> sets the status
  only when it is a non-empty string, and \<open>if (feedback_helpful !== undefined)\<close> sets
  the feedback also when it is \<open>null\<close>.
\<close>

definition updateData :: "env \<Rightarrow> put_body \<Rightarrow> update_data" where
  "updateData e b =
     \<lparr>upd_updated_at = js_now e,
      upd_status = (if falsy (put_status b) then None else put_status b),
      upd_feedback_helpful =
        (case put_feedback_helpful b of
           Absent \<Rightarrow> None
         | Null_value \<Rightarrow> Some None
         | Bool_value v \<Rightarrow> Some (Some v))\<rparr>"

text \<open>
  The handler of \<open>supabase/functions/manage-complaints/index.ts\<close>. It creates its client
  with the service-role key and never reads the \<open>Authorization\<close> header.
\<close>

definition manage_complaints ::
  "env \<Rightarrow> put_body request \<Rightarrow> complaint list \<Rightarrow> response \<times> complaint list" where
  "manage_complaints e req db =
     (if req_method req = OPTIONS then (\<lparr>resp_status = 200, resp_body = No_body\<rparr>, db)
      else if req_method req = GET then
        (case db_select_all e db of
           Inl msg \<Rightarrow> (server_error msg, db)
         | Inr data \<Rightarrow> (json_response 200 (Complaints_body data), db))
      else if req_method req = PUT then
        (case req_json req of
           Inl msg \<Rightarrow> (server_error msg, db)
         | Inr b \<Rightarrow>
            (case put_id b of
               None \<Rightarrow> (json_response 400 (Error_body (lit ''Complaint ID is required'')), db)
             | Some i \<Rightarrow>
                (if i = []
                 then (json_response 400 (Error_body (lit ''Complaint ID is required'')), db)
                 else
                   (case db_update e (updateData e b) i db of
                      (Inl msg, db') \<Rightarrow> (server_error msg, db')
                    | (Inr row, db') \<Rightarrow> (json_response 200 (Complaint_body row), db')))))
      else (json_response 405 (Error_body (lit ''Method not allowed'')), db))"

text \<open>A sequence of requests to the handler, each with the environment it runs in.\<close>

fun run_requests :: "(env \<times> put_body request) list \<Rightarrow> complaint list \<Rightarrow> complaint list" where
  "run_requests [] db = db"
| "run_requests ((e, req) # rest) db = run_requests rest (snd (manage_complaints e req db))"

section \<open>Row-level security and the dashboards' own queries\<close>

text \<open>
  The role a statement runs under: the anon key, a signed-in user's token, or the
  service-role key.
\<close>

datatype db_role = Anon | Authenticated jsstring | Service_role

text \<open>
  The SELECT policies of migration \<open>20251219163423\<close>: "Users can view own complaints"
  (\<open>auth.uid() = user_id\<close>, which is not true for a null \<open>user_id\<close>) for
  \<open>authenticated\<close>, "Public can view complaints" (\<open>true\<close>) for \<open>anon\<close>; the service
  role bypasses the policies.
\<close>

fun select_policy :: "db_role \<Rightarrow> complaint \<Rightarrow> bool" where
  "select_policy Service_role r = True"
| "select_policy Anon r = True"
| "select_policy (Authenticated uid) r = (user_id r = Some uid)"

text \<open>
  The UPDATE policies: "Users can update own complaints" for \<open>authenticated\<close>,
  "Service role can update complaints"; \<open>anon\<close> has none. The WITH CHECK clause repeats the
  USING clause on \<open>user_id\<close>, a column no update of the repository writes.
\<close>

fun update_policy :: "db_role \<Rightarrow> complaint \<Rightarrow> bool" where
  "update_policy Service_role r = True"
| "update_policy Anon r = False"
| "update_policy (Authenticated uid) r = (user_id r = Some uid)"

definition rls_select :: "db_role \<Rightarrow> complaint list \<Rightarrow> complaint list" where
  "rls_select role db = filter (select_policy role) db"

definition rls_update ::
  "db_role \<Rightarrow> update_data \<Rightarrow> jsstring \<Rightarrow> complaint list \<Rightarrow> complaint list" where
  "rls_update role u i db =
     map (\<lambda>r. if cid r = i \<and> update_policy role r then apply_update u r else r) db"

text \<open>
  \<open>fetchUserComplaints\<close> of the user dashboard, run with the token of the signed-in user
  \<open>uid\<close>: \<open>.select('*').eq('user_id', user.id).order('created_at', descending)\<close>.
\<close>

definition fetchUserComplaints :: "env \<Rightarrow> jsstring \<Rightarrow> complaint list \<Rightarrow> jsstring + complaint list" where
  "fetchUserComplaints e uid db =
     (case db_fault e of
        Some msg \<Rightarrow> Inl msg
      | None \<Rightarrow>
         Inr (order_created_at_desc
                (filter (\<lambda>r. user_id r = Some uid) (rls_select (Authenticated uid) db))))"

text \<open>
  \<open>updateComplaintStatus\<close> of the new admin dashboard, which writes the table directly
  under the role of whoever is signed in:
  \<open>.update({ status, updated_at: new Date().toISOString() }).eq('id', id)\<close>. It
  returns the error, if any, and the store. Rows the policy hides are skipped silently.
\<close>

definition updateComplaintStatus ::
  "env \<Rightarrow> db_role \<Rightarrow> jsstring \<Rightarrow> jsstring \<Rightarrow> complaint list \<Rightarrow> jsstring option \<times> complaint list" where
  "updateComplaintStatus e role i st db =
     (case db_fault e of
        Some msg \<Rightarrow> (Some msg, db)
      | None \<Rightarrow>
         (None, rls_update role
                  \<lparr>upd_updated_at = js_now e, upd_status = Some st,
                   upd_feedback_helpful = None\<rparr> i db))"

section \<open>The failure modes of inference\<close>

text \<open>
  The ways the inference call can fail: the endpoint is not configured, \<open>fetch\<close> rejects
  (unreachable or timed out), the status is not a success, the body is no JSON object, or
  one of category, sentiment, priority, ai_response is missing or empty.
\<close>

definition inference_fails :: "env \<Rightarrow> jsstring \<Rightarrow> bool" where
  "inference_fails e text \<longleftrightarrow>
     (case ML_SERVICE_URL e of
        None \<Rightarrow> True
      | Some url \<Rightarrow>
         url = [] \<or>
         (case fetch_predict e (url @ lit ''/predict'') text of
            Fetch_rejected \<Rightarrow> True
          | Fetch_response ok reply \<Rightarrow>
             \<not> ok \<or>
             (case reply of
                None \<Rightarrow> True
              | Some p \<Rightarrow> falsy (pred_category p) \<or> falsy (pred_sentiment p) \<or>
                         falsy (pred_priority p) \<or> falsy (pred_ai_response p))))"

text \<open>
  A text passes the handler's test \<open>!complaint_text || complaint_text.trim().length === 0\<close>
  exactly when some code unit of it is no white space.
\<close>

definition nonblank :: "jsstring \<Rightarrow> bool" where
  "nonblank text \<longleftrightarrow> (\<exists>c\<in>set text. \<not> isWhiteSpace c)"

section \<open>Concrete inputs\<close>

text \<open>
  An environment without a configured prediction service, with a store that accepts every
  statement, and where \<open>token-of-bob\<close> is the token of the regular user \<open>bob\<close>;
  one stored complaint of user \<open>alice\<close> and one of a guest.
\<close>

definition demo_env :: env where
  "demo_env =
     \<lparr>ML_SERVICE_URL = None,
      fetch_predict = (\<lambda>url text. Fetch_rejected),
      auth_getUser =
        (\<lambda>token. if token = lit ''token-of-bob''
                  then Some \<lparr>au_id = lit ''bob'', au_email = Some (lit ''bob@example.org'')\<rparr>
                  else None),
      db_fault = None,
      gen_random_uuid = lit ''c-2'',
      db_now = 2000,
      js_now = 3000\<rparr>"

text \<open>The same environment with a store that refuses the statement.\<close>

definition faulty_env :: env where
  "faulty_env = demo_env\<lparr>db_fault := Some (lit ''connection refused'')\<rparr>"

definition demo_row :: complaint where
  "demo_row =
     \<lparr>cid = lit ''c-1'',
      complaint_text = lit ''My package was delayed by 5 days'',
      category = lit ''Delayed Delivery'',
      sentiment = lit ''Negative'',
      priority = lit ''High'',
      ai_response = lit ''We apologize for the delay.'',
      ai_confidence_score = 82,
      ai_explanation = [],
      status = lit ''Pending'',
      feedback_helpful = None,
      user_id = Some (lit ''alice''),
      user_email = Some (lit ''alice@example.org''),
      created_at = 1000,
      updated_at = 1000\<rparr>"

definition guest_row :: complaint where
  "guest_row =
     demo_row\<lparr>cid := lit ''c-0'', user_id := None, user_email := None,
              created_at := 500, updated_at := 500\<rparr>"

text \<open>The same environment at a later reading of the handler's clock, and at an earlier one.\<close>

definition later_env :: env where
  "later_env = demo_env\<lparr>js_now := 4000\<rparr>"

definition stale_env :: env where
  "stale_env = demo_env\<lparr>js_now := 1000\<rparr>"

definition post_request :: "jsstring option \<Rightarrow> post_body request" where
  "post_request text =
     \<lparr>req_method = POST, req_authorization = None,
      req_json = Inr \<lparr>post_complaint_text = text\<rparr>\<rparr>"

definition put_request :: "jsstring option \<Rightarrow> feedback_arg \<Rightarrow> put_body request" where
  "put_request st fb =
     \<lparr>req_method = PUT, req_authorization = Some (lit ''Bearer token-of-bob''),
      req_json = Inr \<lparr>put_id = Some (lit ''c-1''), put_status = st,
                       put_feedback_helpful = fb\<rparr>\<rparr>"

definition get_request :: "jsstring option \<Rightarrow> put_body request" where
  "get_request auth = \<lparr>req_method = GET, req_authorization = auth, req_json = Inl (lit ''Unexpected end of JSON input'')\<rparr>"

section \<open>Facts about text\<close>

lemma dropWhile_all_iff: "(\<forall>x\<in>set (dropWhile P xs). P x) \<longleftrightarrow> dropWhile P xs = []"
proof
  assume all: "\<forall>x\<in>set (dropWhile P xs). P x"
  show "dropWhile P xs = []"
  proof (rule ccontr)
    assume ne: "dropWhile P xs \<noteq> []"
    then have "\<not> P (hd (dropWhile P xs))" by (rule hd_dropWhile)
    moreover from ne have "hd (dropWhile P xs) \<in> set (dropWhile P xs)" by simp
    ultimately show False using all by blast
  qed
next
  assume "dropWhile P xs = []"
  then show "\<forall>x\<in>set (dropWhile P xs). P x" by (simp del: dropWhile_eq_Nil_conv)
qed

lemma trim_Nil_iff: "trim s = [] \<longleftrightarrow> (\<forall>c\<in>set s. isWhiteSpace c)"
proof -
  have "trim s = [] \<longleftrightarrow> (\<forall>x\<in>set (dropWhile isWhiteSpace s). isWhiteSpace x)"
    by (simp add: trim_def)
  also have "\<dots> \<longleftrightarrow> dropWhile isWhiteSpace s = []" by (rule dropWhile_all_iff)
  also have "\<dots> \<longleftrightarrow> (\<forall>c\<in>set s. isWhiteSpace c)" by (rule dropWhile_eq_Nil_conv)
  finally show ?thesis .
qed

section \<open>Facts about process-complaint\<close>

lemma getMLPredictions_None_iff:
  "getMLPredictions e text = None \<longleftrightarrow> inference_fails e text"
  by (auto simp: getMLPredictions_def inference_fails_def falsy_def
           split: option.splits fetch_outcome.splits)

lemma getMLPredictions_Some_labels:
  assumes "getMLPredictions e text = Some p"
  shows "\<exists>c s pr a. pred_category p = Some c \<and> c \<noteq> [] \<and> pred_sentiment p = Some s \<and> s \<noteq> []
       \<and> pred_priority p = Some pr \<and> pr \<noteq> [] \<and> pred_ai_response p = Some a \<and> a \<noteq> []"
  using assms
  by (auto simp: getMLPredictions_def falsy_def
           split: option.splits fetch_outcome.splits if_splits)

lemma lit_eq_Nil_iff: "lit s = [] \<longleftrightarrow> s = []"
  by (simp add: lit_def)

lemma fallback_labels_v2:
  "pred_category getFallbackValues_v2 = Some (lit ''Other'')"
  "pred_sentiment getFallbackValues_v2 = Some (lit ''Neutral'')"
  "pred_priority getFallbackValues_v2 = Some (lit ''Low'')"
  "pred_ai_response getFallbackValues_v2 = Some fallback_ai_response"
  "pred_confidence_score getFallbackValues_v2 = Some 50"
  by (simp_all add: getFallbackValues_v2_def)

lemma fallback_labels_v1:
  "pred_category getFallbackValues_v1 = Some (lit ''Other'')"
  "pred_sentiment getFallbackValues_v1 = Some (lit ''Neutral'')"
  "pred_priority getFallbackValues_v1 = Some (lit ''Low'')"
  "pred_ai_response getFallbackValues_v1 = Some fallback_ai_response"
  "pred_confidence_score getFallbackValues_v1 = None"
  by (simp_all add: getFallbackValues_v1_def)

lemma fallback_ai_response_nonempty: "fallback_ai_response \<noteq> []"
  by (simp add: fallback_ai_response_def lit_eq_Nil_iff)

lemma nonblank_passes: "nonblank text \<Longrightarrow> \<not> (text = [] \<or> length (trim text) = 0)"
  by (auto simp: nonblank_def trim_Nil_iff)

lemma process_complaint_v2_fallback:
  assumes "req_method req \<noteq> OPTIONS" and "req_json req = Inr b"
    and "post_complaint_text b = Some text" and "nonblank text"
    and "getMLPredictions e text = None" and "db_fault e = None"
  shows "\<exists>row. process_complaint_v2 e req db = (json_response 200 (Complaint_body row), db @ [row])
     \<and> complaint_text row = text \<and> category row = lit ''Other'' \<and> sentiment row = lit ''Neutral''
     \<and> priority row = lit ''Low'' \<and> ai_response row = fallback_ai_response
     \<and> ai_confidence_score row = 50 \<and> status row = lit ''Pending'' \<and> feedback_helpful row = None"
  using assms nonblank_passes[OF assms(4)]
  by (simp add: process_complaint_v2_def db_insert_def fallback_labels_v2 Let_def split: prod.splits)

lemma process_complaint_v1_fallback:
  assumes "req_method req \<noteq> OPTIONS" and "req_json req = Inr b"
    and "post_complaint_text b = Some text" and "nonblank text"
    and "getMLPredictions e text = None" and "db_fault e = None"
  shows "\<exists>row. process_complaint_v1 e req db = (json_response 200 (Complaint_body row), db @ [row])
     \<and> complaint_text row = text \<and> category row = lit ''Other'' \<and> sentiment row = lit ''Neutral''
     \<and> priority row = lit ''Low'' \<and> ai_response row = fallback_ai_response
     \<and> ai_confidence_score row = 0 \<and> status row = lit ''Pending'' \<and> feedback_helpful row = None"
  using assms nonblank_passes[OF assms(4)]
  by (simp add: process_complaint_v1_def db_insert_def fallback_labels_v1 Let_def split: prod.splits)

lemma process_complaint_v2_predicted:
  assumes "req_method req \<noteq> OPTIONS" and "req_json req = Inr b"
    and "post_complaint_text b = Some text" and "nonblank text"
    and "getMLPredictions e text = Some p" and "db_fault e = None"
  shows "\<exists>row. process_complaint_v2 e req db = (json_response 200 (Complaint_body row), db @ [row])
     \<and> complaint_text row = text \<and> Some (category row) = pred_category p
     \<and> Some (sentiment row) = pred_sentiment p
     \<and> Some (priority row) = pred_priority p \<and> Some (ai_response row) = pred_ai_response p
     \<and> status row = lit ''Pending'' \<and> feedback_helpful row = None"
  using assms nonblank_passes[OF assms(4)] getMLPredictions_Some_labels[OF assms(5)]
  by (auto simp add: process_complaint_v2_def db_insert_def Let_def split: prod.splits)

lemma process_complaint_v1_predicted:
  assumes "req_method req \<noteq> OPTIONS" and "req_json req = Inr b"
    and "post_complaint_text b = Some text" and "nonblank text"
    and "getMLPredictions e text = Some p" and "db_fault e = None"
  shows "\<exists>row. process_complaint_v1 e req db = (json_response 200 (Complaint_body row), db @ [row])
     \<and> complaint_text row = text \<and> Some (category row) = pred_category p
     \<and> Some (sentiment row) = pred_sentiment p
     \<and> Some (priority row) = pred_priority p \<and> Some (ai_response row) = pred_ai_response p
     \<and> status row = lit ''Pending'' \<and> feedback_helpful row = None"
  using assms nonblank_passes[OF assms(4)] getMLPredictions_Some_labels[OF assms(5)]
  by (auto simp add: process_complaint_v1_def db_insert_def Let_def split: prod.splits)

lemma process_complaint_store_fault:
  assumes "req_method req \<noteq> OPTIONS" and "req_json req = Inr b"
    and "post_complaint_text b = Some text" and "nonblank text"
    and "db_fault e = Some msg"
  shows "process_complaint_v2 e req db = (server_error msg, db)"
    and "process_complaint_v1 e req db = (server_error msg, db)"
  using assms nonblank_passes[OF assms(4)]
  by (simp_all add: process_complaint_v2_def process_complaint_v1_def db_insert_def Let_def split: prod.splits)

lemma demo_text_nonblank: "nonblank (lit ''Lost parcel'')"
  by (simp add: nonblank_def lit_def isWhiteSpace_def)

lemma demo_inference_fails: "inference_fails demo_env t"
  by (simp add: inference_fails_def demo_env_def)

section \<open>Claims about submission\<close>

text \<open>
  Claim C1, as amended. For every non-blank submission whose inference call fails (the
  endpoint is not configured, unreachable or timed out, answers a non-success status, or
  sends a payload without one of category, sentiment, priority, ai_response): if the store
  accepts the insert, the submission succeeds with status 200 and the persisted complaint
  has category "Other", sentiment "Neutral", priority "Low" and the canned response. Its
  \<open>ai_confidence_score\<close> is 50 in the user-tracking revision of the handler, and the
  column default 0 in the revision of \<open>supabase/functions/process-complaint/index.ts\<close>,
  whose fallback has no confidence score and whose insert writes none. If the store
  rejects the insert, the answer is 500 with the store's message and no row is written:
  the only error that reaches the caller is the store's, never one of the inference step.
\<close>

theorem inference_failure_uses_fallback:
  assumes "req_method req \<noteq> OPTIONS" and "req_json req = Inr b"
    and "post_complaint_text b = Some text" and "nonblank text"
    and "inference_fails e text"
  shows "(db_fault e = None \<longrightarrow>
         (\<exists>row. process_complaint_v2 e req db =
                 (\<lparr>resp_status = 200, resp_body = Complaint_body row\<rparr>, db @ [row])
              \<and> category row = lit ''Other'' \<and> sentiment row = lit ''Neutral''
              \<and> priority row = lit ''Low'' \<and> ai_response row = fallback_ai_response
              \<and> ai_confidence_score row = 50)
       \<and> (\<exists>row. process_complaint_v1 e req db =
                 (\<lparr>resp_status = 200, resp_body = Complaint_body row\<rparr>, db @ [row])
              \<and> category row = lit ''Other'' \<and> sentiment row = lit ''Neutral''
              \<and> priority row = lit ''Low'' \<and> ai_response row = fallback_ai_response
              \<and> ai_confidence_score row = 0))
       \<and> (\<forall>msg. db_fault e = Some msg \<longrightarrow>
            process_complaint_v2 e req db = (server_error msg, db)
          \<and> process_complaint_v1 e req db = (server_error msg, db))"
proof -
  from assms(5) have none: "getMLPredictions e text = None"
    by (simp add: getMLPredictions_None_iff)
  have bad: "process_complaint_v2 e req db = (server_error msg, db)
          \<and> process_complaint_v1 e req db = (server_error msg, db)"
    if f: "db_fault e = Some msg" for msg
    using process_complaint_store_fault [OF assms(1-4) f] by simp
  have ok: "(\<exists>row. process_complaint_v2 e req db =
                 (\<lparr>resp_status = 200, resp_body = Complaint_body row\<rparr>, db @ [row])
              \<and> category row = lit ''Other'' \<and> sentiment row = lit ''Neutral''
              \<and> priority row = lit ''Low'' \<and> ai_response row = fallback_ai_response
              \<and> ai_confidence_score row = 50)
       \<and> (\<exists>row. process_complaint_v1 e req db =
                 (\<lparr>resp_status = 200, resp_body = Complaint_body row\<rparr>, db @ [row])
              \<and> category row = lit ''Other'' \<and> sentiment row = lit ''Neutral''
              \<and> priority row = lit ''Low'' \<and> ai_response row = fallback_ai_response
              \<and> ai_confidence_score row = 0)"
    if f: "db_fault e = None"
  proof -
    from process_complaint_v2_fallback [OF assms(1-4) none f, of db]
    have v2: "\<exists>row. process_complaint_v2 e req db =
                   (\<lparr>resp_status = 200, resp_body = Complaint_body row\<rparr>, db @ [row])
                \<and> category row = lit ''Other'' \<and> sentiment row = lit ''Neutral''
                \<and> priority row = lit ''Low'' \<and> ai_response row = fallback_ai_response
                \<and> ai_confidence_score row = 50"
      unfolding json_response_def by blast
    from process_complaint_v1_fallback [OF assms(1-4) none f, of db]
    have v1: "\<exists>row. process_complaint_v1 e req db =
                   (\<lparr>resp_status = 200, resp_body = Complaint_body row\<rparr>, db @ [row])
                \<and> category row = lit ''Other'' \<and> sentiment row = lit ''Neutral''
                \<and> priority row = lit ''Low'' \<and> ai_response row = fallback_ai_response
                \<and> ai_confidence_score row = 0"
      unfolding json_response_def by blast
    from v2 v1 show ?thesis by (rule conjI)
  qed
  from ok bad show ?thesis by blast
qed

theorem inference_failure_uses_fallback_witness:
  "(\<exists>row. process_complaint_v2 demo_env (post_request (Some (lit ''Lost parcel''))) [demo_row] =
                 (\<lparr>resp_status = 200, resp_body = Complaint_body row\<rparr>, [demo_row] @ [row])
              \<and> category row = lit ''Other'' \<and> sentiment row = lit ''Neutral''
              \<and> priority row = lit ''Low'' \<and> ai_response row = fallback_ai_response
              \<and> ai_confidence_score row = 50)
       \<and> (\<exists>row. process_complaint_v1 demo_env (post_request (Some (lit ''Lost parcel''))) [demo_row] =
                 (\<lparr>resp_status = 200, resp_body = Complaint_body row\<rparr>, [demo_row] @ [row])
              \<and> category row = lit ''Other'' \<and> sentiment row = lit ''Neutral''
              \<and> priority row = lit ''Low'' \<and> ai_response row = fallback_ai_response
              \<and> ai_confidence_score row = 0)"
proof -
  have m: "req_method (post_request (Some (lit ''Lost parcel''))) \<noteq> OPTIONS"
    by (simp add: post_request_def)
  have j: "req_json (post_request (Some (lit ''Lost parcel''))) =
          Inr \<lparr>post_complaint_text = Some (lit ''Lost parcel'')\<rparr>"
    by (simp add: post_request_def)
  have t: "post_complaint_text \<lparr>post_complaint_text = Some (lit ''Lost parcel'')\<rparr> =
          Some (lit ''Lost parcel'')" by simp
  have i: "inference_fails demo_env (lit ''Lost parcel'')" by (rule demo_inference_fails)
  have f: "db_fault demo_env = None" by (simp add: demo_env_def)
  from inference_failure_uses_fallback
         [OF m j t demo_text_nonblank i, of "[demo_row]", THEN conjunct1, THEN mp, OF f]
  show ?thesis .
qed

text \<open>
  The claim as first stated fails twice. With inference down and a store that refuses the
  insert, the user-tracking revision answers 500 and persists nothing; and with inference
  down and a healthy store, the other revision persists a confidence score of 0, not 50.
\<close>

theorem inference_failure_counterexample:
  "inference_fails faulty_env (lit ''Lost parcel'')
   \<and> inference_fails demo_env (lit ''Lost parcel'')
   \<and> process_complaint_v2 faulty_env
        (post_request (Some (lit ''Lost parcel''))) [demo_row] =
       (\<lparr>resp_status = 500, resp_body = Error_body (lit ''connection refused'')\<rparr>, [demo_row])
   \<and> process_complaint_v1 demo_env (post_request (Some (lit ''Lost parcel''))) [] =
       (\<lparr>resp_status = 200, resp_body = Complaint_body
           \<lparr>cid = lit ''c-2'', complaint_text = lit ''Lost parcel'', category = lit ''Other'',
            sentiment = lit ''Neutral'', priority = lit ''Low'',
            ai_response = fallback_ai_response, ai_confidence_score = 0, ai_explanation = [],
            status = lit ''Pending'', feedback_helpful = None, user_id = None,
            user_email = None, created_at = 2000, updated_at = 2000\<rparr>\<rparr>,
        [\<lparr>cid = lit ''c-2'', complaint_text = lit ''Lost parcel'', category = lit ''Other'',
            sentiment = lit ''Neutral'', priority = lit ''Low'',
            ai_response = fallback_ai_response, ai_confidence_score = 0, ai_explanation = [],
            status = lit ''Pending'', feedback_helpful = None, user_id = None,
            user_email = None, created_at = 2000, updated_at = 2000\<rparr>])"
proof -
  have nb: "\<not> (lit ''Lost parcel'' = [] \<or> length (trim (lit ''Lost parcel'')) = 0)"
    by (rule nonblank_passes [OF demo_text_nonblank])
  have none: "getMLPredictions demo_env (lit ''Lost parcel'') = None"
    by (simp add: getMLPredictions_None_iff demo_inference_fails)
  have none': "getMLPredictions faulty_env (lit ''Lost parcel'') = None"
    by (simp add: getMLPredictions_def faulty_env_def demo_env_def falsy_def)
  have a: "process_complaint_v2 faulty_env
        (post_request (Some (lit ''Lost parcel''))) [demo_row] =
       (\<lparr>resp_status = 500, resp_body = Error_body (lit ''connection refused'')\<rparr>, [demo_row])"
    using nb none'
    by (simp add: process_complaint_v2_def post_request_def db_insert_def server_error_def
          json_response_def lit_eq_Nil_iff faulty_env_def split: prod.splits)
  have b: "process_complaint_v1 demo_env (post_request (Some (lit ''Lost parcel''))) [] =
       (\<lparr>resp_status = 200, resp_body = Complaint_body
           \<lparr>cid = lit ''c-2'', complaint_text = lit ''Lost parcel'', category = lit ''Other'',
            sentiment = lit ''Neutral'', priority = lit ''Low'',
            ai_response = fallback_ai_response, ai_confidence_score = 0, ai_explanation = [],
            status = lit ''Pending'', feedback_helpful = None, user_id = None,
            user_email = None, created_at = 2000, updated_at = 2000\<rparr>\<rparr>,
        [\<lparr>cid = lit ''c-2'', complaint_text = lit ''Lost parcel'', category = lit ''Other'',
            sentiment = lit ''Neutral'', priority = lit ''Low'',
            ai_response = fallback_ai_response, ai_confidence_score = 0, ai_explanation = [],
            status = lit ''Pending'', feedback_helpful = None, user_id = None,
            user_email = None, created_at = 2000, updated_at = 2000\<rparr>])"
    using nb none
    by (simp add: process_complaint_v1_def post_request_def db_insert_def
          json_response_def fallback_labels_v1 Let_def demo_env_def split: prod.splits)
  have f: "inference_fails faulty_env (lit ''Lost parcel'')"
    by (simp add: inference_fails_def faulty_env_def demo_env_def)
  from f demo_inference_fails a b show ?thesis by blast
qed

text \<open>
  Claim C4. A complaint text that is missing, empty or made of white space only is answered
  with status 400 and the message "Complaint text is required", and the store keeps every
  row as it was, in both revisions of the handler.
\<close>

theorem blank_text_rejected:
  assumes "req_method req \<noteq> OPTIONS"
    and "req_json req = Inr b"
    and "post_complaint_text b = None \<or>
         (\<exists>s. post_complaint_text b = Some s \<and> (\<forall>c\<in>set s. isWhiteSpace c))"
  shows "process_complaint_v2 e req db =
           (\<lparr>resp_status = 400, resp_body = Error_body (lit ''Complaint text is required'')\<rparr>, db)
       \<and> process_complaint_v1 e req db =
           (\<lparr>resp_status = 400, resp_body = Error_body (lit ''Complaint text is required'')\<rparr>, db)"
  using assms
  by (auto simp: process_complaint_v2_def process_complaint_v1_def json_response_def trim_Nil_iff)

theorem blank_text_rejected_witness:
  "process_complaint_v2 demo_env (post_request (Some (lit ''  ''))) [demo_row] =
     (\<lparr>resp_status = 400, resp_body = Error_body (lit ''Complaint text is required'')\<rparr>, [demo_row])
   \<and> process_complaint_v1 demo_env (post_request None) [demo_row] =
     (\<lparr>resp_status = 400, resp_body = Error_body (lit ''Complaint text is required'')\<rparr>, [demo_row])"
  using blank_text_rejected [of "post_request (Some (lit ''  ''))" "\<lparr>post_complaint_text = Some (lit ''  '')\<rparr>" demo_env "[demo_row]"]
        blank_text_rejected [of "post_request None" "\<lparr>post_complaint_text = None\<rparr>" demo_env "[demo_row]"]
  by (simp add: post_request_def lit_def isWhiteSpace_def)

lemma demo_long_text_nonblank: "nonblank (lit ''My package was delayed by 5 days'')"
  by (simp add: nonblank_def lit_def isWhiteSpace_def)

text \<open>
  Claim C5, as amended. For every non-blank complaint text, if the store accepts the insert,
  the submission succeeds with status 200 and returns the persisted complaint, appended to
  the table, whose status is Pending, whose \<open>feedback_helpful\<close> is null and whose
  category, sentiment, priority and ai_response are non-empty strings, in both revisions
  of the handler. If the store rejects the insert, the answer is 500 with the store's
  message and no row is written.
\<close>

theorem nonblank_submission_persisted:
  assumes "req_method req \<noteq> OPTIONS" and "req_json req = Inr b"
    and "post_complaint_text b = Some text" and "nonblank text"
  shows "(db_fault e = None \<longrightarrow>
         (\<exists>row. process_complaint_v2 e req db =
                 (\<lparr>resp_status = 200, resp_body = Complaint_body row\<rparr>, db @ [row])
              \<and> complaint_text row = text
              \<and> status row = lit ''Pending'' \<and> feedback_helpful row = None
              \<and> category row \<noteq> [] \<and> sentiment row \<noteq> []
              \<and> priority row \<noteq> [] \<and> ai_response row \<noteq> [])
       \<and> (\<exists>row. process_complaint_v1 e req db =
                 (\<lparr>resp_status = 200, resp_body = Complaint_body row\<rparr>, db @ [row])
              \<and> complaint_text row = text
              \<and> status row = lit ''Pending'' \<and> feedback_helpful row = None
              \<and> category row \<noteq> [] \<and> sentiment row \<noteq> []
              \<and> priority row \<noteq> [] \<and> ai_response row \<noteq> []))
       \<and> (\<forall>msg. db_fault e = Some msg \<longrightarrow>
            process_complaint_v2 e req db = (server_error msg, db)
          \<and> process_complaint_v1 e req db = (server_error msg, db))"
proof -
  have bad: "process_complaint_v2 e req db = (server_error msg, db)
          \<and> process_complaint_v1 e req db = (server_error msg, db)"
    if f: "db_fault e = Some msg" for msg
    using process_complaint_store_fault [OF assms(1-4) f] by simp
  have ok: "(\<exists>row. process_complaint_v2 e req db =
                 (\<lparr>resp_status = 200, resp_body = Complaint_body row\<rparr>, db @ [row])
              \<and> complaint_text row = text
              \<and> status row = lit ''Pending'' \<and> feedback_helpful row = None
              \<and> category row \<noteq> [] \<and> sentiment row \<noteq> []
              \<and> priority row \<noteq> [] \<and> ai_response row \<noteq> [])
       \<and> (\<exists>row. process_complaint_v1 e req db =
                 (\<lparr>resp_status = 200, resp_body = Complaint_body row\<rparr>, db @ [row])
              \<and> complaint_text row = text
              \<and> status row = lit ''Pending'' \<and> feedback_helpful row = None
              \<and> category row \<noteq> [] \<and> sentiment row \<noteq> []
              \<and> priority row \<noteq> [] \<and> ai_response row \<noteq> [])"
    if f: "db_fault e = None"
  proof (cases "getMLPredictions e text")
    case None
    from process_complaint_v2_fallback [OF assms(1-4) None f, of db]
    have v2: "\<exists>row. process_complaint_v2 e req db =
                   (\<lparr>resp_status = 200, resp_body = Complaint_body row\<rparr>, db @ [row])
                \<and> complaint_text row = text
                \<and> status row = lit ''Pending'' \<and> feedback_helpful row = None
                \<and> category row \<noteq> [] \<and> sentiment row \<noteq> []
                \<and> priority row \<noteq> [] \<and> ai_response row \<noteq> []"
      unfolding json_response_def
      by (auto simp: lit_eq_Nil_iff fallback_ai_response_nonempty)
    from process_complaint_v1_fallback [OF assms(1-4) None f, of db]
    have v1: "\<exists>row. process_complaint_v1 e req db =
                   (\<lparr>resp_status = 200, resp_body = Complaint_body row\<rparr>, db @ [row])
                \<and> complaint_text row = text
                \<and> status row = lit ''Pending'' \<and> feedback_helpful row = None
                \<and> category row \<noteq> [] \<and> sentiment row \<noteq> []
                \<and> priority row \<noteq> [] \<and> ai_response row \<noteq> []"
      unfolding json_response_def
      by (auto simp: lit_eq_Nil_iff fallback_ai_response_nonempty)
    from v2 v1 show ?thesis by (rule conjI)
  next
    case (Some p)
    from getMLPredictions_Some_labels [OF Some]
    obtain c s pr a where lab: "pred_category p = Some c" "c \<noteq> []" "pred_sentiment p = Some s"
      "s \<noteq> []" "pred_priority p = Some pr" "pr \<noteq> []" "pred_ai_response p = Some a" "a \<noteq> []"
      by blast
    from process_complaint_v2_predicted [OF assms(1-4) Some f, of db] lab
    have v2: "\<exists>row. process_complaint_v2 e req db =
                   (\<lparr>resp_status = 200, resp_body = Complaint_body row\<rparr>, db @ [row])
                \<and> complaint_text row = text
                \<and> status row = lit ''Pending'' \<and> feedback_helpful row = None
                \<and> category row \<noteq> [] \<and> sentiment row \<noteq> []
                \<and> priority row \<noteq> [] \<and> ai_response row \<noteq> []"
      unfolding json_response_def by auto
    from process_complaint_v1_predicted [OF assms(1-4) Some f, of db] lab
    have v1: "\<exists>row. process_complaint_v1 e req db =
                   (\<lparr>resp_status = 200, resp_body = Complaint_body row\<rparr>, db @ [row])
                \<and> complaint_text row = text
                \<and> status row = lit ''Pending'' \<and> feedback_helpful row = None
                \<and> category row \<noteq> [] \<and> sentiment row \<noteq> []
                \<and> priority row \<noteq> [] \<and> ai_response row \<noteq> []"
      unfolding json_response_def by auto
    from v2 v1 show ?thesis by (rule conjI)
  qed
  from ok bad show ?thesis by blast
qed

theorem nonblank_submission_persisted_witness:
  "(\<exists>row. process_complaint_v2 demo_env
             (post_request (Some (lit ''My package was delayed by 5 days''))) [demo_row] =
                 (\<lparr>resp_status = 200, resp_body = Complaint_body row\<rparr>, [demo_row] @ [row])
              \<and> complaint_text row = lit ''My package was delayed by 5 days''
              \<and> status row = lit ''Pending'' \<and> feedback_helpful row = None
              \<and> category row \<noteq> [] \<and> sentiment row \<noteq> []
              \<and> priority row \<noteq> [] \<and> ai_response row \<noteq> [])
       \<and> (\<exists>row. process_complaint_v1 demo_env
             (post_request (Some (lit ''My package was delayed by 5 days''))) [demo_row] =
                 (\<lparr>resp_status = 200, resp_body = Complaint_body row\<rparr>, [demo_row] @ [row])
              \<and> complaint_text row = lit ''My package was delayed by 5 days''
              \<and> status row = lit ''Pending'' \<and> feedback_helpful row = None
              \<and> category row \<noteq> [] \<and> sentiment row \<noteq> []
              \<and> priority row \<noteq> [] \<and> ai_response row \<noteq> [])"
proof -
  have m: "req_method (post_request (Some (lit ''My package was delayed by 5 days''))) \<noteq> OPTIONS"
    by (simp add: post_request_def)
  have j: "req_json (post_request (Some (lit ''My package was delayed by 5 days''))) =
          Inr \<lparr>post_complaint_text = Some (lit ''My package was delayed by 5 days'')\<rparr>"
    by (simp add: post_request_def)
  have t: "post_complaint_text \<lparr>post_complaint_text = Some (lit ''My package was delayed by 5 days'')\<rparr> =
          Some (lit ''My package was delayed by 5 days'')" by simp
  have f: "db_fault demo_env = None" by (simp add: demo_env_def)
  from nonblank_submission_persisted
         [OF m j t demo_long_text_nonblank, of demo_env "[demo_row]", THEN conjunct1, THEN mp, OF f]
  show ?thesis .
qed

text \<open>
  The claim as first stated fails when the store refuses the insert: the handler rethrows
  the store's error and answers 500, and nothing is persisted.
\<close>

theorem nonblank_submission_counterexample:
  "nonblank (lit ''My package was delayed by 5 days'')
   \<and> process_complaint_v2 faulty_env
        (post_request (Some (lit ''My package was delayed by 5 days''))) [] =
       (\<lparr>resp_status = 500, resp_body = Error_body (lit ''connection refused'')\<rparr>, [])
   \<and> process_complaint_v1 faulty_env
        (post_request (Some (lit ''My package was delayed by 5 days''))) [] =
       (\<lparr>resp_status = 500, resp_body = Error_body (lit ''connection refused'')\<rparr>, [])"
proof -
  have r: "req_method (post_request (Some (lit ''My package was delayed by 5 days''))) \<noteq> OPTIONS"
    by (simp add: post_request_def)
  have j: "req_json (post_request (Some (lit ''My package was delayed by 5 days''))) =
          Inr \<lparr>post_complaint_text = Some (lit ''My package was delayed by 5 days'')\<rparr>"
    by (simp add: post_request_def)
  have t: "post_complaint_text \<lparr>post_complaint_text = Some (lit ''My package was delayed by 5 days'')\<rparr> =
          Some (lit ''My package was delayed by 5 days'')" by simp
  have f: "db_fault faulty_env = Some (lit ''connection refused'')"
    by (simp add: faulty_env_def)
  have s: "server_error (lit ''connection refused'') =
           \<lparr>resp_status = 500, resp_body = Error_body (lit ''connection refused'')\<rparr>"
    by (simp add: server_error_def json_response_def lit_eq_Nil_iff)
  from process_complaint_store_fault [OF r j t demo_long_text_nonblank f, of "[]"]
       demo_long_text_nonblank
  show ?thesis unfolding s by blast
qed

section \<open>Claims about listing\<close>

text \<open>
  Claim C10. The listing is insensitive to the caller's credential: two GET requests that
  differ only in their \<open>Authorization\<close> header (any value, or none) get the same
  response from the same store, and when the store answers, that response is the whole
  table, newest first.
\<close>

theorem list_ignores_credential:
  assumes "req_method req = GET"
  shows "manage_complaints e (req\<lparr>req_authorization := a1\<rparr>) db =
         manage_complaints e (req\<lparr>req_authorization := a2\<rparr>) db
       \<and> (db_fault e = None \<longrightarrow>
            manage_complaints e (req\<lparr>req_authorization := a1\<rparr>) db =
              (\<lparr>resp_status = 200, resp_body = Complaints_body (order_created_at_desc db)\<rparr>, db))"
  using assms by (simp add: manage_complaints_def db_select_all_def json_response_def)

theorem list_ignores_credential_witness:
  "manage_complaints demo_env (get_request None) [demo_row] =
   manage_complaints demo_env (get_request (Some (lit ''Bearer token-of-bob''))) [demo_row]
   \<and> manage_complaints demo_env (get_request None) [demo_row] =
       (\<lparr>resp_status = 200, resp_body = Complaints_body [demo_row]\<rparr>, [demo_row])"
proof -
  have g: "req_method (get_request None) = GET"
    by (simp add: get_request_def)
  have f: "db_fault demo_env = None"
    by (simp add: demo_env_def)
  have r1: "(get_request None)\<lparr>req_authorization := None\<rparr> = get_request None"
    by (simp add: get_request_def)
  have r2: "(get_request None)\<lparr>req_authorization := Some (lit ''Bearer token-of-bob'')\<rparr> =
            get_request (Some (lit ''Bearer token-of-bob''))"
    by (simp add: get_request_def)
  have o: "order_created_at_desc [demo_row] = [demo_row]"
    by (simp add: order_created_at_desc_def)
  from list_ignores_credential [OF g, of demo_env None "[demo_row]"
          "Some (lit ''Bearer token-of-bob'')"] f
  show ?thesis unfolding r1 r2 o by blast
qed

section \<open>Claims about ownership\<close>

lemma set_order_created_at_desc: "set (order_created_at_desc db) = set db"
  by (simp add: order_created_at_desc_def)

text \<open>
  Claim C2, as amended. For every authenticated regular principal, a listing that queries
  the table under that principal's own credential, as the user dashboard's
  \<open>fetchUserComplaints\<close> does, returns exactly the complaints whose \<open>user_id\<close> equals
  the principal's id: the row-level policy admits no row with another or a null
  \<open>user_id\<close>.
\<close>

theorem own_rows_only_under_row_level_security:
  "set (rls_select (Authenticated uid) db) = {r \<in> set db. user_id r = Some uid}
   \<and> (\<forall>rows. fetchUserComplaints e uid db = Inr rows \<longrightarrow>
          set rows = {r \<in> set db. user_id r = Some uid})"
  by (auto simp: rls_select_def fetchUserComplaints_def set_order_created_at_desc
           split: option.splits)

theorem own_rows_only_under_row_level_security_witness:
  "fetchUserComplaints demo_env (lit ''alice'') [guest_row, demo_row] = Inr [demo_row]
   \<and> set [demo_row] = {r \<in> set [guest_row, demo_row]. user_id r = Some (lit ''alice'')}"
proof -
  have f: "fetchUserComplaints demo_env (lit ''alice'') [guest_row, demo_row] = Inr [demo_row]"
    by (simp add: fetchUserComplaints_def demo_env_def rls_select_def guest_row_def
          demo_row_def order_created_at_desc_def)
  with own_rows_only_under_row_level_security
         [of "lit ''alice''" "[guest_row, demo_row]" demo_env]
  show ?thesis by blast
qed

text \<open>
  The claim as first stated, read on the GET branch of manage-complaints, fails: the caller
  who presents the token of regular user \<open>bob\<close> receives the complaint of \<open>alice\<close> and
  the complaint of a guest.
\<close>

theorem list_by_regular_user_counterexample:
  "resolve_user demo_env (Some (lit ''Bearer token-of-bob'')) =
     (Some (lit ''bob''), Some (lit ''bob@example.org''))
   \<and> manage_complaints demo_env (get_request (Some (lit ''Bearer token-of-bob'')))
        [guest_row, demo_row] =
       (\<lparr>resp_status = 200, resp_body = Complaints_body [demo_row, guest_row]\<rparr>,
        [guest_row, demo_row])
   \<and> user_id demo_row = Some (lit ''alice'') \<and> lit ''alice'' \<noteq> lit ''bob''
   \<and> user_id guest_row = None"
  by (simp add: resolve_user_def manage_complaints_def get_request_def db_select_all_def
        json_response_def order_created_at_desc_def startsWith_def demo_env_def
        demo_row_def guest_row_def lit_def)

text \<open>
  Claim C3, as amended. An update of a complaint issued under the credential of a regular
  principal who does not own it (its \<open>user_id\<close> is another one or null) changes no row:
  the row-level policy hides the row from the statement, which then matches nothing and
  reports no error of its own. The PUT branch of manage-complaints makes no ownership
  check: its outcome does not depend on the \<open>Authorization\<close> header.
\<close>

theorem non_owner_update_changes_nothing:
  assumes "\<forall>r\<in>set db. cid r = i \<longrightarrow> user_id r \<noteq> Some uid"
  shows "rls_update (Authenticated uid) u i db = db
       \<and> updateComplaintStatus e (Authenticated uid) i st db = (db_fault e, db)
       \<and> manage_complaints e (req\<lparr>req_authorization := a\<rparr>) db0 = manage_complaints e req db0"
proof -
  have m: "rls_update (Authenticated uid) u' i db = db" for u'
    unfolding rls_update_def using assms by (induction db) auto
  have "updateComplaintStatus e (Authenticated uid) i st db = (db_fault e, db)"
    by (simp add: updateComplaintStatus_def m split: option.splits)
  moreover have "manage_complaints e (req\<lparr>req_authorization := a\<rparr>) db0 = manage_complaints e req db0"
    by (simp add: manage_complaints_def)
  ultimately show ?thesis using m by blast
qed

theorem non_owner_update_changes_nothing_witness:
  "rls_update (Authenticated (lit ''bob''))
     \<lparr>upd_updated_at = 3000, upd_status = Some (lit ''Resolved''), upd_feedback_helpful = None\<rparr>
     (lit ''c-1'') [guest_row, demo_row] = [guest_row, demo_row]
   \<and> updateComplaintStatus demo_env (Authenticated (lit ''bob'')) (lit ''c-1'') (lit ''Resolved'')
       [guest_row, demo_row] = (None, [guest_row, demo_row])"
proof -
  have h: "\<forall>r\<in>set [guest_row, demo_row]. cid r = lit ''c-1'' \<longrightarrow> user_id r \<noteq> Some (lit ''bob'')"
    by (simp add: guest_row_def demo_row_def lit_def)
  have f: "db_fault demo_env = None" by (simp add: demo_env_def)
  from non_owner_update_changes_nothing [OF h, of _ demo_env "lit ''Resolved''"] f
  show ?thesis by simp
qed

text \<open>
  The claim as first stated fails on the PUT branch of manage-complaints: the caller who
  presents the token of regular user \<open>bob\<close> resolves the complaint of \<open>alice\<close>; the
  answer is 200, not Forbidden, and the row is rewritten.
\<close>

theorem update_by_non_owner_counterexample:
  "resolve_user demo_env (Some (lit ''Bearer token-of-bob'')) =
     (Some (lit ''bob''), Some (lit ''bob@example.org''))
   \<and> user_id demo_row = Some (lit ''alice'') \<and> lit ''alice'' \<noteq> lit ''bob''
   \<and> manage_complaints demo_env (put_request (Some (lit ''Resolved'')) Absent) [demo_row] =
       (\<lparr>resp_status = 200,
          resp_body = Complaint_body (demo_row\<lparr>updated_at := 3000, status := lit ''Resolved''\<rparr>)\<rparr>,
        [demo_row\<lparr>updated_at := 3000, status := lit ''Resolved''\<rparr>])
   \<and> demo_row\<lparr>updated_at := 3000, status := lit ''Resolved''\<rparr> \<noteq> demo_row"
  by (simp add: resolve_user_def manage_complaints_def put_request_def db_update_def
        updateData_def apply_update_def falsy_def json_response_def startsWith_def
        demo_env_def demo_row_def lit_def)

section \<open>Facts about manage-complaints\<close>

lemma cid_apply_update: "cid (apply_update u x) = cid x"
  by (simp add: apply_update_def)

lemma db_update_single:
  assumes "db_fault e = None" and "filter (\<lambda>x. cid x = i) db = [r]"
  shows "db_update e u i db =
           (Inr (apply_update u r), map (\<lambda>x. if cid x = i then apply_update u x else x) db)"
  using assms by (simp add: db_update_def)

lemma filter_cid_after_update:
  assumes "filter (\<lambda>x. cid x = i) db = [r]"
  shows "filter (\<lambda>x. cid x = i) (map (\<lambda>x. if cid x = i then apply_update u x else x) db) =
           [apply_update u r]"
proof -
  have "filter (\<lambda>x. cid x = i) (map (\<lambda>x. if cid x = i then apply_update u x else x) db) =
        map (apply_update u) (filter (\<lambda>x. cid x = i) db)"
    by (induction db) (auto simp: cid_apply_update)
  with assms show ?thesis by simp
qed

lemma manage_complaints_put_single:
  assumes "req_method req = PUT" and "req_json req = Inr b" and "put_id b = Some i"
    and "i \<noteq> []" and "db_fault e = None" and "filter (\<lambda>x. cid x = i) db = [r]"
  shows "manage_complaints e req db =
           (\<lparr>resp_status = 200, resp_body = Complaint_body (apply_update (updateData e b) r)\<rparr>,
            map (\<lambda>x. if cid x = i then apply_update (updateData e b) x else x) db)"
  using assms
  by (simp add: manage_complaints_def db_update_single [OF assms(5,6)] json_response_def)

section \<open>Claims about single updates\<close>

text \<open>
  Claim C6, as amended. A successful update that supplies only \<open>feedback_helpful\<close> with a
  boolean changes, in the targeted row, \<open>feedback_helpful\<close> to that boolean and
  \<open>updated_at\<close> to the handler's clock reading, and nothing else: status and every other
  field keep their values, and every other row is untouched. The new \<open>updated_at\<close> is
  strictly newer exactly when that clock reading exceeds the stored value.
\<close>

theorem feedback_only_update_frame:
  assumes "req_method req = PUT"
    and "req_json req = Inr \<lparr>put_id = Some i, put_status = None,
                              put_feedback_helpful = Bool_value v\<rparr>"
    and "i \<noteq> []" and "db_fault e = None" and "filter (\<lambda>x. cid x = i) db = [r]"
  shows "manage_complaints e req db =
           (\<lparr>resp_status = 200,
              resp_body = Complaint_body (r\<lparr>updated_at := js_now e, feedback_helpful := Some v\<rparr>)\<rparr>,
            map (\<lambda>x. if cid x = i
                      then x\<lparr>updated_at := js_now e, feedback_helpful := Some v\<rparr> else x) db)
       \<and> status (r\<lparr>updated_at := js_now e, feedback_helpful := Some v\<rparr>) = status r
       \<and> (updated_at r < updated_at (r\<lparr>updated_at := js_now e, feedback_helpful := Some v\<rparr>)
            \<longleftrightarrow> updated_at r < js_now e)"
proof -
  let ?b = "\<lparr>put_id = Some i, put_status = None, put_feedback_helpful = Bool_value v\<rparr>"
  have u: "apply_update (updateData e ?b) x = x\<lparr>updated_at := js_now e, feedback_helpful := Some v\<rparr>"
    for x
    by (simp add: apply_update_def updateData_def falsy_def)
  have "put_id ?b = Some i" by simp
  from manage_complaints_put_single [OF assms(1,2) this assms(3,4,5)]
  show ?thesis by (simp add: u)
qed

theorem feedback_only_update_frame_witness:
  "manage_complaints demo_env (put_request None (Bool_value True)) [guest_row, demo_row] =
     (\<lparr>resp_status = 200,
        resp_body = Complaint_body (demo_row\<lparr>updated_at := 3000, feedback_helpful := Some True\<rparr>)\<rparr>,
      [guest_row, demo_row\<lparr>updated_at := 3000, feedback_helpful := Some True\<rparr>])
   \<and> status (demo_row\<lparr>updated_at := 3000, feedback_helpful := Some True\<rparr>) = status demo_row
   \<and> updated_at demo_row < updated_at (demo_row\<lparr>updated_at := 3000, feedback_helpful := Some True\<rparr>)"
proof -
  have m: "req_method (put_request None (Bool_value True)) = PUT"
    by (simp add: put_request_def)
  have j: "req_json (put_request None (Bool_value True)) =
             Inr \<lparr>put_id = Some (lit ''c-1''), put_status = None,
                   put_feedback_helpful = Bool_value True\<rparr>"
    by (simp add: put_request_def)
  have i: "lit ''c-1'' \<noteq> []" by (simp add: lit_def)
  have f: "db_fault demo_env = None" by (simp add: demo_env_def)
  have s: "filter (\<lambda>x. cid x = lit ''c-1'') [guest_row, demo_row] = [demo_row]"
    by (simp add: guest_row_def demo_row_def lit_def)
  have n: "js_now demo_env = 3000" by (simp add: demo_env_def)
  have c: "cid guest_row \<noteq> lit ''c-1''" "cid demo_row = lit ''c-1''"
    by (simp_all add: guest_row_def demo_row_def lit_def)
  have o: "updated_at demo_row < 3000" by (simp add: demo_row_def)
  from feedback_only_update_frame [OF m j i f s] o
  show ?thesis by (simp add: n c)
qed

text \<open>
  The claim as first stated fails where it says "always strictly newer": when the handler's
  clock reads the value the row already holds (a second update in the same millisecond, or
  a handler clock behind the store's), \<open>updated_at\<close> is not newer after the update.
\<close>

theorem feedback_only_update_counterexample:
  "updated_at demo_row = 1000
   \<and> manage_complaints stale_env (put_request None (Bool_value True)) [demo_row] =
       (\<lparr>resp_status = 200,
          resp_body = Complaint_body (demo_row\<lparr>updated_at := 1000, feedback_helpful := Some True\<rparr>)\<rparr>,
        [demo_row\<lparr>updated_at := 1000, feedback_helpful := Some True\<rparr>])
   \<and> \<not> updated_at demo_row
         < updated_at (demo_row\<lparr>updated_at := 1000, feedback_helpful := Some True\<rparr>)"
  by (simp add: manage_complaints_def put_request_def db_update_def updateData_def
        apply_update_def falsy_def json_response_def stale_env_def demo_env_def
        demo_row_def lit_def)

text \<open>
  Claim C7, as amended. Two successive updates of the same complaint with the payload
  \<open>{status: "Resolved"}\<close> both succeed with status 200 when the store accepts them, and
  the state after the second call equals the state after the first in every field of every
  row except the \<open>updated_at\<close> of the targeted row, which holds the clock reading of the
  second call; when both calls read the same clock value the states are equal.
\<close>

theorem re_resolving_keeps_all_but_updated_at:
  assumes "req_method req = PUT"
    and "req_json req = Inr \<lparr>put_id = Some i, put_status = Some (lit ''Resolved''),
                              put_feedback_helpful = Absent\<rparr>"
    and "i \<noteq> []" and "db_fault e1 = None" and "db_fault e2 = None"
    and "filter (\<lambda>x. cid x = i) db = [r]"
  shows "\<exists>db1 db2.
           manage_complaints e1 req db =
             (\<lparr>resp_status = 200,
                resp_body = Complaint_body (r\<lparr>updated_at := js_now e1, status := lit ''Resolved''\<rparr>)\<rparr>,
              db1)
         \<and> manage_complaints e2 req db1 =
             (\<lparr>resp_status = 200,
                resp_body = Complaint_body (r\<lparr>updated_at := js_now e2, status := lit ''Resolved''\<rparr>)\<rparr>,
              db2)
         \<and> db2 = map (\<lambda>x. if cid x = i then x\<lparr>updated_at := js_now e2\<rparr> else x) db1
         \<and> (js_now e2 = js_now e1 \<longrightarrow> db2 = db1)"
proof -
  let ?b = "\<lparr>put_id = Some i, put_status = Some (lit ''Resolved''), put_feedback_helpful = Absent\<rparr>"
  let ?f = "\<lambda>e x. if cid x = i then apply_update (updateData e ?b) x else x"
  have u: "apply_update (updateData e ?b) x = x\<lparr>updated_at := js_now e, status := lit ''Resolved''\<rparr>"
    for x e
    by (simp add: apply_update_def updateData_def falsy_def lit_eq_Nil_iff)
  have pid: "put_id ?b = Some i" by simp
  have first: "manage_complaints e1 req db =
      (\<lparr>resp_status = 200, resp_body = Complaint_body (apply_update (updateData e1 ?b) r)\<rparr>,
       map (?f e1) db)"
    by (rule manage_complaints_put_single [OF assms(1,2) pid assms(3,4,6)])
  have hit: "filter (\<lambda>x. cid x = i) (map (?f e1) db) = [apply_update (updateData e1 ?b) r]"
    by (rule filter_cid_after_update [OF assms(6)])
  have second: "manage_complaints e2 req (map (?f e1) db) =
      (\<lparr>resp_status = 200,
         resp_body = Complaint_body (apply_update (updateData e2 ?b) (apply_update (updateData e1 ?b) r))\<rparr>,
       map (?f e2) (map (?f e1) db))"
    by (rule manage_complaints_put_single [OF assms(1,2) pid assms(3,5) hit])
  have twice: "apply_update (updateData e2 ?b) (apply_update (updateData e1 ?b) x) =
               x\<lparr>updated_at := js_now e2, status := lit ''Resolved''\<rparr>" for x
    by (simp add: u)
  have shape: "map (?f e2) (map (?f e1) db) =
               map (\<lambda>x. if cid x = i then x\<lparr>updated_at := js_now e2\<rparr> else x) (map (?f e1) db)"
    by (induction db) (auto simp: u)
  have same: "js_now e2 = js_now e1 \<longrightarrow> map (?f e2) (map (?f e1) db) = map (?f e1) db"
    by (induction db) (auto simp: u)
  show ?thesis
    using first second shape same by (auto simp: u)
qed

theorem re_resolving_keeps_all_but_updated_at_witness:
  "\<exists>db1 db2.
     manage_complaints demo_env (put_request (Some (lit ''Resolved'')) Absent) [guest_row, demo_row] =
       (\<lparr>resp_status = 200,
          resp_body = Complaint_body (demo_row\<lparr>updated_at := 3000, status := lit ''Resolved''\<rparr>)\<rparr>,
        db1)
   \<and> manage_complaints later_env (put_request (Some (lit ''Resolved'')) Absent) db1 =
       (\<lparr>resp_status = 200,
          resp_body = Complaint_body (demo_row\<lparr>updated_at := 4000, status := lit ''Resolved''\<rparr>)\<rparr>,
        db2)
   \<and> db2 = map (\<lambda>x. if cid x = lit ''c-1'' then x\<lparr>updated_at := 4000\<rparr> else x) db1"
proof -
  have m: "req_method (put_request (Some (lit ''Resolved'')) Absent) = PUT"
    by (simp add: put_request_def)
  have j: "req_json (put_request (Some (lit ''Resolved'')) Absent) =
             Inr \<lparr>put_id = Some (lit ''c-1''), put_status = Some (lit ''Resolved''),
                   put_feedback_helpful = Absent\<rparr>"
    by (simp add: put_request_def)
  have i: "lit ''c-1'' \<noteq> []" by (simp add: lit_def)
  have f1: "db_fault demo_env = None" by (simp add: demo_env_def)
  have f2: "db_fault later_env = None" by (simp add: later_env_def demo_env_def)
  have s: "filter (\<lambda>x. cid x = lit ''c-1'') [guest_row, demo_row] = [demo_row]"
    by (simp add: guest_row_def demo_row_def lit_def)
  have n1: "js_now demo_env = 3000" by (simp add: demo_env_def)
  have n2: "js_now later_env = 4000" by (simp add: later_env_def)
  from re_resolving_keeps_all_but_updated_at [OF m j i f1 f2 s]
  show ?thesis unfolding n1 n2 by blast
qed

text \<open>
  The claim as first stated fails on \<open>updated_at\<close>: after a second call at a later clock
  reading, the state is not the state the first call left.
\<close>

theorem re_resolving_counterexample:
  "manage_complaints demo_env (put_request (Some (lit ''Resolved'')) Absent) [demo_row] =
     (\<lparr>resp_status = 200,
        resp_body = Complaint_body (demo_row\<lparr>updated_at := 3000, status := lit ''Resolved''\<rparr>)\<rparr>,
      [demo_row\<lparr>updated_at := 3000, status := lit ''Resolved''\<rparr>])
   \<and> manage_complaints later_env (put_request (Some (lit ''Resolved'')) Absent)
       [demo_row\<lparr>updated_at := 3000, status := lit ''Resolved''\<rparr>] =
     (\<lparr>resp_status = 200,
        resp_body = Complaint_body (demo_row\<lparr>updated_at := 4000, status := lit ''Resolved''\<rparr>)\<rparr>,
      [demo_row\<lparr>updated_at := 4000, status := lit ''Resolved''\<rparr>])
   \<and> [demo_row\<lparr>updated_at := 4000, status := lit ''Resolved''\<rparr>]
       \<noteq> [demo_row\<lparr>updated_at := 3000, status := lit ''Resolved''\<rparr>]"
  by (simp add: manage_complaints_def put_request_def db_update_def updateData_def
        apply_update_def falsy_def json_response_def later_env_def demo_env_def
        demo_row_def lit_def)

section \<open>Claims about sequences of updates\<close>

lemma manage_complaints_store:
  "snd (manage_complaints e req db) = db
   \<or> (\<exists>b i. req_json req = Inr b
          \<and> snd (manage_complaints e req db) =
              map (\<lambda>x. if cid x = i then apply_update (updateData e b) x else x) db)"
  by (auto simp: manage_complaints_def db_update_def
           split: option.splits sum.splits list.splits prod.splits)

lemma list_all2_map_self:
  assumes "\<And>x. R x (f x)"
  shows "list_all2 R xs (map f xs)"
  using assms by (induction xs) auto

lemma manage_complaints_related:
  assumes refl: "\<And>x. R x x"
    and upd: "\<And>b x. req_json req = Inr b \<Longrightarrow> R x (apply_update (updateData e b) x)"
  shows "list_all2 R db (snd (manage_complaints e req db))"
proof -
  from manage_complaints_store [of e req db]
  show ?thesis
  proof
    assume "snd (manage_complaints e req db) = db"
    with refl show ?thesis by (simp add: list_all2_same)
  next
    assume "\<exists>b i. req_json req = Inr b
          \<and> snd (manage_complaints e req db) =
              map (\<lambda>x. if cid x = i then apply_update (updateData e b) x else x) db"
    then obtain b i where b: "req_json req = Inr b"
      and s: "snd (manage_complaints e req db) =
              map (\<lambda>x. if cid x = i then apply_update (updateData e b) x else x) db"
      by blast
    have "R x (if cid x = i then apply_update (updateData e b) x else x)" for x
      using refl upd [OF b] by simp
    then show ?thesis unfolding s by (rule list_all2_map_self)
  qed
qed

lemma run_requests_related:
  assumes refl: "\<And>x. R x x"
    and trans: "\<And>x y z. R x y \<Longrightarrow> R y z \<Longrightarrow> R x z"
    and upd: "\<And>e req b x. (e, req) \<in> set ops \<Longrightarrow> req_json req = Inr b
                \<Longrightarrow> R x (apply_update (updateData e b) x)"
  shows "list_all2 R db (run_requests ops db)"
  using upd
proof (induction ops arbitrary: db)
  case Nil
  from refl show ?case by (simp add: list_all2_same)
next
  case (Cons op ops)
  obtain e req where op: "op = (e, req)" by (cases op)
  have here: "(e, req) \<in> set (op # ops)" by (simp add: op)
  have step: "list_all2 R db (snd (manage_complaints e req db))"
  proof (rule manage_complaints_related [OF refl])
    fix b x
    assume "req_json req = Inr b"
    with here show "R x (apply_update (updateData e b) x)" by (rule Cons.prems)
  qed
  have rest: "list_all2 R (snd (manage_complaints e req db))
                (run_requests ops (snd (manage_complaints e req db)))"
  proof (rule Cons.IH)
    fix e' req' b x
    assume "(e', req') \<in> set ops" and j: "req_json req' = Inr b"
    then have "(e', req') \<in> set (op # ops)" by simp
    from this j show "R x (apply_update (updateData e' b) x)" by (rule Cons.prems)
  qed
  from list_all2_trans [of R R R, OF trans step rest]
  show ?case by (simp add: op)
qed

text \<open>
  Claim C8, as amended. For every complaint and every sequence of update requests none of
  which supplies \<open>feedback_helpful: null\<close>, a \<open>feedback_helpful\<close> that is true or false
  is never returned to null: every row keeps its id and its place, and where the column
  was set before the sequence it is set after it. The handler enforces no rule of its own:
  a request that omits the property keeps the value, one that supplies a boolean stores it
  over whatever was there.
\<close>

theorem feedback_never_reset_without_null:
  assumes "\<forall>(e, req)\<in>set ops. \<forall>b. req_json req = Inr b \<longrightarrow> put_feedback_helpful b \<noteq> Null_value"
  shows "list_all2 (\<lambda>r r'. cid r' = cid r \<and> (feedback_helpful r \<noteq> None \<longrightarrow> feedback_helpful r' \<noteq> None))
           db (run_requests ops db)"
proof (rule run_requests_related)
  fix e req b x
  assume "(e, req) \<in> set ops" and "req_json req = Inr b"
  with assms have "put_feedback_helpful b \<noteq> Null_value" by blast
  then show "cid (apply_update (updateData e b) x) = cid x \<and>
             (feedback_helpful x \<noteq> None \<longrightarrow> feedback_helpful (apply_update (updateData e b) x) \<noteq> None)"
    by (cases "put_feedback_helpful b") (auto simp: apply_update_def updateData_def)
qed auto

theorem feedback_never_reset_without_null_witness:
  "list_all2 (\<lambda>r r'. cid r' = cid r \<and> (feedback_helpful r \<noteq> None \<longrightarrow> feedback_helpful r' \<noteq> None))
     [demo_row\<lparr>feedback_helpful := Some True\<rparr>]
     (run_requests [(demo_env, put_request (Some (lit ''Resolved'')) Absent),
                    (later_env, put_request None (Bool_value False))]
        [demo_row\<lparr>feedback_helpful := Some True\<rparr>])
   \<and> run_requests [(demo_env, put_request (Some (lit ''Resolved'')) Absent),
                    (later_env, put_request None (Bool_value False))]
        [demo_row\<lparr>feedback_helpful := Some True\<rparr>] =
       [demo_row\<lparr>feedback_helpful := Some False, status := lit ''Resolved'', updated_at := 4000\<rparr>]"
proof -
  have h: "\<forall>(e, req)\<in>set [(demo_env, put_request (Some (lit ''Resolved'')) Absent),
                    (later_env, put_request None (Bool_value False))].
             \<forall>b. req_json req = Inr b \<longrightarrow> put_feedback_helpful b \<noteq> Null_value"
    by (auto simp: put_request_def)
  have r: "run_requests [(demo_env, put_request (Some (lit ''Resolved'')) Absent),
                    (later_env, put_request None (Bool_value False))]
        [demo_row\<lparr>feedback_helpful := Some True\<rparr>] =
       [demo_row\<lparr>feedback_helpful := Some False, status := lit ''Resolved'', updated_at := 4000\<rparr>]"
    by (simp add: manage_complaints_def put_request_def db_update_def updateData_def
          apply_update_def falsy_def json_response_def later_env_def demo_env_def
          demo_row_def lit_def)
  from feedback_never_reset_without_null [OF h] r show ?thesis by blast
qed

text \<open>
  The claim as first stated fails: a request with \<open>feedback_helpful: null\<close> passes the
  test \<open>feedback_helpful !== undefined\<close> and resets a recorded true to null; and a request
  with \<open>false\<close> overwrites a recorded true, a transition that does not start at null.
\<close>

theorem feedback_reset_counterexample:
  "manage_complaints demo_env (put_request None Null_value)
     [demo_row\<lparr>feedback_helpful := Some True\<rparr>] =
     (\<lparr>resp_status = 200, resp_body = Complaint_body (demo_row\<lparr>updated_at := 3000\<rparr>)\<rparr>,
      [demo_row\<lparr>updated_at := 3000\<rparr>])
   \<and> feedback_helpful (demo_row\<lparr>updated_at := 3000\<rparr>) = None
   \<and> manage_complaints demo_env (put_request None (Bool_value False))
     [demo_row\<lparr>feedback_helpful := Some True\<rparr>] =
     (\<lparr>resp_status = 200,
        resp_body = Complaint_body (demo_row\<lparr>updated_at := 3000, feedback_helpful := Some False\<rparr>)\<rparr>,
      [demo_row\<lparr>updated_at := 3000, feedback_helpful := Some False\<rparr>])"
  by (simp add: manage_complaints_def put_request_def db_update_def updateData_def
        apply_update_def falsy_def json_response_def demo_env_def demo_row_def lit_def)

text \<open>
  Claim C9, as amended. For every complaint and every sequence of update requests whose
  status, where one is supplied and non-empty, is "Resolved" (the one value the dashboards
  send), every row keeps its id and its place and has, after the sequence, either the
  status it had before or Resolved: a Resolved complaint stays Resolved and a Pending one
  is Pending or Resolved. The handler enforces no rule of its own: it stores any non-empty
  status string it is given.
\<close>

theorem status_only_moves_to_resolved:
  assumes "\<forall>(e, req)\<in>set ops. \<forall>b. req_json req = Inr b \<longrightarrow>
             falsy (put_status b) \<or> put_status b = Some (lit ''Resolved'')"
  shows "list_all2 (\<lambda>r r'. cid r' = cid r \<and> (status r' = status r \<or> status r' = lit ''Resolved''))
           db (run_requests ops db)"
proof (rule run_requests_related)
  fix e req b x
  assume "(e, req) \<in> set ops" and "req_json req = Inr b"
  with assms have "falsy (put_status b) \<or> put_status b = Some (lit ''Resolved'')" by blast
  then show "cid (apply_update (updateData e b) x) = cid x \<and>
             (status (apply_update (updateData e b) x) = status x \<or>
              status (apply_update (updateData e b) x) = lit ''Resolved'')"
    by (auto simp: apply_update_def updateData_def)
qed auto

theorem status_only_moves_to_resolved_witness:
  "list_all2 (\<lambda>r r'. cid r' = cid r \<and> (status r' = status r \<or> status r' = lit ''Resolved''))
     [guest_row, demo_row]
     (run_requests [(demo_env, put_request (Some (lit ''Resolved'')) Absent),
                    (later_env, put_request (Some []) (Bool_value True))]
        [guest_row, demo_row])
   \<and> run_requests [(demo_env, put_request (Some (lit ''Resolved'')) Absent),
                    (later_env, put_request (Some []) (Bool_value True))]
        [guest_row, demo_row] =
       [guest_row,
        demo_row\<lparr>feedback_helpful := Some True, status := lit ''Resolved'', updated_at := 4000\<rparr>]"
proof -
  have h: "\<forall>(e, req)\<in>set [(demo_env, put_request (Some (lit ''Resolved'')) Absent),
                    (later_env, put_request (Some []) (Bool_value True))].
             \<forall>b. req_json req = Inr b \<longrightarrow>
               falsy (put_status b) \<or> put_status b = Some (lit ''Resolved'')"
    by (auto simp: put_request_def falsy_def)
  have r: "run_requests [(demo_env, put_request (Some (lit ''Resolved'')) Absent),
                    (later_env, put_request (Some []) (Bool_value True))]
        [guest_row, demo_row] =
       [guest_row,
        demo_row\<lparr>feedback_helpful := Some True, status := lit ''Resolved'', updated_at := 4000\<rparr>]"
    by (simp add: manage_complaints_def put_request_def db_update_def updateData_def
          apply_update_def falsy_def json_response_def later_env_def demo_env_def
          demo_row_def guest_row_def lit_def)
  from status_only_moves_to_resolved [OF h] r show ?thesis by blast
qed

text \<open>
  The claim as first stated fails: a request with status "Pending" moves a Resolved
  complaint back to Pending, and a request with status "Archived" moves a Pending one
  outside the two values.
\<close>

theorem status_transition_counterexample:
  "manage_complaints demo_env (put_request (Some (lit ''Pending'')) Absent)
     [demo_row\<lparr>status := lit ''Resolved''\<rparr>] =
     (\<lparr>resp_status = 200, resp_body = Complaint_body (demo_row\<lparr>updated_at := 3000\<rparr>)\<rparr>,
      [demo_row\<lparr>updated_at := 3000\<rparr>])
   \<and> status (demo_row\<lparr>updated_at := 3000\<rparr>) = lit ''Pending''
   \<and> manage_complaints demo_env (put_request (Some (lit ''Archived'')) Absent) [demo_row] =
     (\<lparr>resp_status = 200,
        resp_body = Complaint_body (demo_row\<lparr>updated_at := 3000, status := lit ''Archived''\<rparr>)\<rparr>,
      [demo_row\<lparr>updated_at := 3000, status := lit ''Archived''\<rparr>])
   \<and> lit ''Archived'' \<noteq> lit ''Pending'' \<and> lit ''Archived'' \<noteq> lit ''Resolved''
   \<and> lit ''Resolved'' \<noteq> lit ''Pending''"
  by (simp add: manage_complaints_def put_request_def db_update_def updateData_def
        apply_update_def falsy_def json_response_def demo_env_def demo_row_def lit_def)

end
